theory Spec2Isabelle
  imports Main "HOL-Library.Sublist"
begin

section \<open>Strings as the assistant uses them\<close>

text \<open>
  A Python \<open>str\<close> is modelled as a \<open>string\<close>, one \<open>char\<close> per code point, for the code
  points below 256 (Latin-1). There \<open>str.lower\<close> maps the letters \<open>A\<close> to \<open>Z\<close> to \<open>a\<close> to
  \<open>z\<close> and the capital letters \<open>0xC0\<close> to \<open>0xDE\<close> (without the sign \<open>0xD7\<close>) to the letter
  32 places up, and leaves every other character as it is.
\<close>

definition upper_letters :: string where
  "upper_letters =
     ''ABCDEFGHIJKLMNOPQRSTUVWXYZ'' @
     [CHR 0xC0, CHR 0xC1, CHR 0xC2, CHR 0xC3, CHR 0xC4, CHR 0xC5, CHR 0xC6,
      CHR 0xC7, CHR 0xC8, CHR 0xC9, CHR 0xCA, CHR 0xCB, CHR 0xCC, CHR 0xCD,
      CHR 0xCE, CHR 0xCF, CHR 0xD0, CHR 0xD1, CHR 0xD2, CHR 0xD3, CHR 0xD4,
      CHR 0xD5, CHR 0xD6, CHR 0xD8, CHR 0xD9, CHR 0xDA, CHR 0xDB, CHR 0xDC,
      CHR 0xDD, CHR 0xDE]"

definition lower_letters :: string where
  "lower_letters =
     ''abcdefghijklmnopqrstuvwxyz'' @
     [CHR 0xE0, CHR 0xE1, CHR 0xE2, CHR 0xE3, CHR 0xE4, CHR 0xE5, CHR 0xE6,
      CHR 0xE7, CHR 0xE8, CHR 0xE9, CHR 0xEA, CHR 0xEB, CHR 0xEC, CHR 0xED,
      CHR 0xEE, CHR 0xEF, CHR 0xF0, CHR 0xF1, CHR 0xF2, CHR 0xF3, CHR 0xF4,
      CHR 0xF5, CHR 0xF6, CHR 0xF8, CHR 0xF9, CHR 0xFA, CHR 0xFB, CHR 0xFC,
      CHR 0xFD, CHR 0xFE]"

definition lower_char :: "char \<Rightarrow> char" where
  "lower_char c =
     (case map_of (zip upper_letters lower_letters) c of
        Some l \<Rightarrow> l
      | None \<Rightarrow> c)"

definition str_lower :: "string \<Rightarrow> string" where
  "str_lower text = map lower_char text"

text \<open>\<open>word in text\<close>: the word occurs as a contiguous piece of the text.\<close>

definition str_in :: "string \<Rightarrow> string \<Rightarrow> bool" where
  "str_in word text = sublist word text"

text \<open>\<open>text.startswith(p)\<close>.\<close>

definition startswith :: "string \<Rightarrow> string \<Rightarrow> bool" where
  "startswith text p = prefix p text"

text \<open>\<open>any(word in text for word in words)\<close>.\<close>

definition any_in :: "string list \<Rightarrow> string \<Rightarrow> bool" where
  "any_in words text = list_ex (\<lambda>word. str_in word text) words"

text \<open>
  \<open>str.strip()\<close>: leading and trailing whitespace is removed. Below 256 the whitespace
  characters of Python are the codes 9 to 13, 28 to 32, 133 and 160.
\<close>

definition is_space :: "char \<Rightarrow> bool" where
  "is_space c =
     ((9 \<le> (of_char c :: nat) \<and> (of_char c :: nat) \<le> 13)
      \<or> (28 \<le> (of_char c :: nat) \<and> (of_char c :: nat) \<le> 32)
      \<or> (of_char c :: nat) = 133
      \<or> (of_char c :: nat) = 160)"

definition strip :: "string \<Rightarrow> string" where
  "strip text = rev (dropWhile is_space (rev (dropWhile is_space text)))"

text \<open>\<open>str(i)\<close> for a natural number: its decimal digits.\<close>

fun str_of_nat :: "nat \<Rightarrow> string" where
  "str_of_nat n =
     (if n < 10 then [''0123456789'' ! n]
      else str_of_nat (n div 10) @ [''0123456789'' ! (n mod 10)])"

declare str_of_nat.simps [simp del]

section \<open>Intent classification (\<open>AIAssistantApp.get_command_intent\<close>)\<close>

definition get_command_intent :: "string \<Rightarrow> string" where
  "get_command_intent text =
     (let text_lower = str_lower text in
      if any_in [''weather'', ''temperature'', ''forecast''] text_lower then ''weather''
      else if any_in [''news'', ''headlines'', ''latest''] text_lower then ''news''
      else if any_in [''remind'', ''reminder'', ''schedule''] text_lower then ''reminder''
      else if any_in [''time'', ''date'', ''day''] text_lower then ''time''
      else if any_in [''help'', ''command'', ''what can you do''] text_lower then ''help''
      else ''general'')"

text \<open>
  The classifier as the specification words it: a fixed table of tags with their keyword
  sets, in priority order; the first tag with a keyword occurring in the lower-cased text
  wins, and \<open>general\<close> is the answer when no tag matches.
\<close>

definition intent_table :: "(string \<times> string list) list" where
  "intent_table =
     [(''weather'', [''weather'', ''temperature'', ''forecast'']),
      (''news'', [''news'', ''headlines'', ''latest'']),
      (''reminder'', [''remind'', ''reminder'', ''schedule'']),
      (''time'', [''time'', ''date'', ''day'']),
      (''help'', [''help'', ''command'', ''what can you do''])]"

fun first_match :: "(string \<times> string list) list \<Rightarrow> string \<Rightarrow> string" where
  "first_match [] text = ''general''"
| "first_match ((tag, keywords) # rest) text =
     (if \<exists>k \<in> set keywords. sublist k text then tag else first_match rest text)"

definition classify_spec :: "string \<Rightarrow> string" where
  "classify_spec text = first_match intent_table (str_lower text)"

definition keywords_of :: "string \<Rightarrow> string list" where
  "keywords_of tag = (case map_of intent_table tag of Some keywords \<Rightarrow> keywords | None \<Rightarrow> [])"

definition has_keyword :: "string \<Rightarrow> string \<Rightarrow> bool" where
  "has_keyword tag text = any_in (keywords_of tag) (str_lower text)"

section \<open>Configuration store (\<open>utils/config.py\<close>)\<close>

text \<open>
  Configuration values are JSON values. A float is kept by its printed form, since the
  assistant never computes with one.
\<close>

datatype pyval = PNone | PBool bool | PInt int | PFloat string | PStr string

type_synonym config_data = "string \<rightharpoonup> (string \<rightharpoonup> pyval)"

definition create_default_config :: config_data where
  "create_default_config =
     [''general'' \<mapsto>
        [''voice_enabled'' \<mapsto> PBool True, ''startup_greeting'' \<mapsto> PBool True,
         ''theme'' \<mapsto> PStr ''default''],
      ''voice'' \<mapsto>
        [''rate'' \<mapsto> PInt 150, ''volume'' \<mapsto> PFloat ''1.0'', ''preferred_voice'' \<mapsto> PNone],
      ''weather'' \<mapsto>
        [''default_location'' \<mapsto> PNone, ''units'' \<mapsto> PStr ''metric''],
      ''news'' \<mapsto>
        [''default_country'' \<mapsto> PStr ''us'', ''default_category'' \<mapsto> PStr ''general'',
         ''article_count'' \<mapsto> PInt 5]]"

text \<open>
  \<open>AppConfig.get(section, key, default=None)\<close> is
  \<open>config_data.get(section, {}).get(key, default)\<close>.
\<close>

definition config_get :: "config_data \<Rightarrow> string \<Rightarrow> string \<Rightarrow> pyval \<Rightarrow> pyval" where
  "config_get config_data section key dflt =
     (case (case config_data section of None \<Rightarrow> Map.empty | Some entries \<Rightarrow> entries) key of
        None \<Rightarrow> dflt
      | Some v \<Rightarrow> v)"

text \<open>\<open>str(v)\<close>, as an f-string renders a value.\<close>

fun py_str :: "pyval \<Rightarrow> string" where
  "py_str PNone = ''None''"
| "py_str (PBool b) = (if b then ''True'' else ''False'')"
| "py_str (PInt i) = (if i < 0 then ''-'' @ str_of_nat (nat (- i)) else str_of_nat (nat i))"
| "py_str (PFloat printed) = printed"
| "py_str (PStr s) = s"

section \<open>Speech recognition module (\<open>modules/speech_recognition_module.py\<close>)\<close>

text \<open>
  The module owns at most one capture thread. \<open>thread_running\<close> stands for
  \<open>self.speech_thread and self.speech_thread.isRunning()\<close>, \<open>stop_event\<close> for the stop
  event of that thread, and \<open>recognizing\<close> says that the thread has captured audio, has
  passed its test of the stop event and is waiting for the recogniser.
  \<open>sessions_started\<close> counts the calls of \<open>speech_thread.start()\<close> and \<open>restart_checks\<close> the
  single-shot timers that will call \<open>check_and_restart_listening\<close> and have not fired yet.
  \<open>emitted\<close> lists the signals the module has emitted.
\<close>

datatype speech_signal = ListeningStarted | ListeningEnded | TextRecognized string

record speech_recognition_module =
  thread_running :: bool
  stop_event :: bool
  recognizing :: bool
  timeout_count :: nat
  sessions_started :: nat
  restart_checks :: nat
  emitted :: "speech_signal list"

definition max_timeouts :: nat where
  "max_timeouts = 3"

definition init_speech_module :: speech_recognition_module where
  "init_speech_module =
     \<lparr>thread_running = False, stop_event = False, recognizing = False, timeout_count = 0,
      sessions_started = 0, restart_checks = 0, emitted = []\<rparr>"

definition start_listening :: "speech_recognition_module \<Rightarrow> speech_recognition_module" where
  "start_listening m =
     (if thread_running m then m
      else m\<lparr>timeout_count := 0,
             emitted := emitted m @ [ListeningStarted],
             thread_running := True,
             stop_event := False,
             recognizing := False,
             sessions_started := sessions_started m + 1,
             restart_checks := restart_checks m + 1\<rparr>)"

definition check_and_restart_listening ::
  "speech_recognition_module \<Rightarrow> speech_recognition_module" where
  "check_and_restart_listening m =
     (if \<not> thread_running m then
        (if timeout_count m < max_timeouts
         then start_listening (m\<lparr>timeout_count := timeout_count m + 1\<rparr>)
         else m\<lparr>timeout_count := 0\<rparr>)
      else m)"

definition stop_listening :: "speech_recognition_module \<Rightarrow> speech_recognition_module" where
  "stop_listening m =
     (if thread_running m then m\<lparr>stop_event := True\<rparr>
      else m\<lparr>emitted := emitted m @ [ListeningEnded]\<rparr>)"

text \<open>
  The restart timer fires: one pending single-shot timer is consumed and
  \<open>check_and_restart_listening\<close> runs.
\<close>

definition restart_timer_fires :: "speech_recognition_module \<Rightarrow> speech_recognition_module" where
  "restart_timer_fires m =
     (if restart_checks m = 0 then m
      else check_and_restart_listening (m\<lparr>restart_checks := restart_checks m - 1\<rparr>))"

text \<open>
  The capture thread (\<open>SpeechRecognitionThread.run\<close>) in two steps. First
  \<open>recognizer.listen\<close> returns audio: the thread tests the stop event, once; with the event
  set it emits \<open>listening_ended\<close> and returns, and the \<open>finally\<close> clause emits
  \<open>listening_ended\<close> once more; otherwise it goes on to the recogniser. Then the thread
  ends: \<open>Heard text\<close> is the recogniser returning a text, which needs audio, and \<open>NoText\<close>
  is every other end (listen timeout, unintelligible audio, service error). A stop
  request that arrives while the recogniser works does not keep the text back.
\<close>

definition audio_captured :: "speech_recognition_module \<Rightarrow> speech_recognition_module" where
  "audio_captured m =
     (if thread_running m \<and> \<not> recognizing m then
        (if stop_event m
         then m\<lparr>thread_running := False,
                emitted := emitted m @ [ListeningEnded, ListeningEnded]\<rparr>
         else m\<lparr>recognizing := True\<rparr>)
      else m)"

datatype capture_outcome = Heard string | NoText

definition capture_signals :: "bool \<Rightarrow> capture_outcome \<Rightarrow> speech_signal list" where
  "capture_signals audio outcome =
     (case outcome of
        NoText \<Rightarrow> [ListeningEnded]
      | Heard text \<Rightarrow>
          if audio \<and> text \<noteq> [] \<and> strip text \<noteq> [] then [TextRecognized text, ListeningEnded]
          else [ListeningEnded])"

definition capture_ends ::
  "capture_outcome \<Rightarrow> speech_recognition_module \<Rightarrow> speech_recognition_module" where
  "capture_ends outcome m =
     (if thread_running m
      then m\<lparr>thread_running := False, recognizing := False,
             emitted := emitted m @ capture_signals (recognizing m) outcome\<rparr>
      else m)"

text \<open>The signals a call has added to those the module had emitted before.\<close>

definition new_signals ::
  "speech_recognition_module \<Rightarrow> speech_recognition_module \<Rightarrow> speech_signal list" where
  "new_signals before after = drop (length (emitted before)) (emitted after)"

text \<open>
  One timeout of the turn-taking: the capture thread ends without a text, then the restart
  timer fires.
\<close>

definition timeout_round :: "speech_recognition_module \<Rightarrow> speech_recognition_module" where
  "timeout_round m = restart_timer_fires (capture_ends NoText m)"

section \<open>The world outside the assistant\<close>

text \<open>
  What the assistant reads from outside while it handles one command: the clock (already
  formatted by \<open>QDateTime.toString\<close>), the answers of the weather, forecast and news
  services, what the OpenAI call does, and the number \<open>random.choice\<close> draws.

  An answer of the weather service is kept by what \<open>get_weather\<close> does with it:
  \<open>Reading temperature description\<close> when it is a non-empty dictionary from which the two
  entries can be read (\<open>N/A\<close> standing in for a missing one), \<open>Unusable e\<close> when it is
  empty or reading it raises, with the message \<open>e\<close>. \<open>weather_api\<close> and \<open>headlines_api\<close>
  yield \<open>None\<close> when the request raises. \<open>forecast_api\<close> yields the description of the
  forecast entry \<open>get_weather\<close> picks, if the request and the picking succeed. The answer
  of the news service is its \<open>articles\<close> entry: \<open>None\<close> when it is not a list of
  dictionaries, else the list of the titles, \<open>None\<close> for an article without a title.
\<close>

datatype weather_data = Reading pyval pyval | Unusable string

type_synonym articles = "pyval option list option"

datatype api_outcome = ApiChoices "string list" | ApiError string

record environment =
  now :: string
  clock_time :: string
  clock_date :: string
  weather_api :: "pyval \<Rightarrow> pyval \<Rightarrow> weather_data option"
  forecast_api :: "pyval \<Rightarrow> pyval \<Rightarrow> pyval option"
  headlines_api :: "pyval \<Rightarrow> string \<Rightarrow> pyval \<Rightarrow> articles option"
  openai_reply :: api_outcome
  random_draw :: nat

text \<open>
  A callback works on a state of the caller and may raise: \<open>Inl e\<close> is an exception with
  message \<open>e\<close>, and a call that raised has left the state as it was. \<open>if callback:\<close> skips a
  missing callback.
\<close>

definition call_callback ::
  "('info \<Rightarrow> 'st \<Rightarrow> string + 'st) option \<Rightarrow> 'info \<Rightarrow> 'st \<Rightarrow> string + 'st" where
  "call_callback callback info st =
     (case callback of None \<Rightarrow> Inr st | Some cb \<Rightarrow> cb info st)"

text \<open>\<open>if v:\<close> for a value.\<close>

fun truthy :: "pyval \<Rightarrow> bool" where
  "truthy PNone = False"
| "truthy (PBool b) = b"
| "truthy (PInt i) = (i \<noteq> 0)"
| "truthy (PFloat printed) = (printed \<noteq> ''0.0'' \<and> printed \<noteq> ''-0.0'')"
| "truthy (PStr s) = (s \<noteq> [])"

section \<open>Weather module (\<open>modules/weather_module.py\<close>)\<close>

record weather_module =
  weather_api_key :: "string option"

definition has_weather_key :: "weather_module \<Rightarrow> bool" where
  "has_weather_key m = (case weather_api_key m of None \<Rightarrow> False | Some k \<Rightarrow> k \<noteq> [])"

definition dummy_weather :: weather_data where
  "dummy_weather = Reading (PInt 20) (PStr ''clear sky'')"

text \<open>\<open>get_current_weather(city=location, units=units)\<close>; latitude and longitude are not given.\<close>

definition get_current_weather ::
  "weather_module \<Rightarrow> environment \<Rightarrow> pyval \<Rightarrow> pyval \<Rightarrow> weather_data" where
  "get_current_weather m env city units =
     (if \<not> has_weather_key m then dummy_weather
      else if truthy city then
        (case weather_api env city units of Some d \<Rightarrow> d | None \<Rightarrow> dummy_weather)
      else dummy_weather)"

text \<open>
  \<open>get_forecast(city=location, units=units, days=1)\<close> and the forecast description
  \<open>get_weather\<close> takes from it; \<open>None\<close> when no forecast entry is added.
\<close>

definition get_forecast ::
  "weather_module \<Rightarrow> environment \<Rightarrow> pyval \<Rightarrow> pyval \<Rightarrow> pyval option" where
  "get_forecast m env city units =
     (if \<not> has_weather_key m then None
      else if truthy city then forecast_api env city units
      else None)"

record weather_info =
  weather_success :: bool
  weather_location :: pyval
  weather_temperature :: pyval
  weather_description :: pyval
  weather_forecast :: "pyval option"
  weather_error :: "string option"

definition weather_error_response :: "pyval \<Rightarrow> string \<Rightarrow> weather_info" where
  "weather_error_response location e =
     \<lparr>weather_success = False, weather_location = location, weather_temperature = PInt 20,
      weather_description = PStr ''clear sky'', weather_forecast = None,
      weather_error = Some e\<rparr>"

definition get_weather ::
  "weather_module \<Rightarrow> config_data \<Rightarrow> environment \<Rightarrow> pyval
     \<Rightarrow> (weather_info \<Rightarrow> 'st \<Rightarrow> string + 'st) option \<Rightarrow> 'st \<Rightarrow> string + (weather_info \<times> 'st)" where
  "get_weather m cfg env location callback st =
     (let units = config_get cfg ''weather'' ''units'' (PStr ''metric'');
          on_exception = (\<lambda>e. case call_callback callback (weather_error_response location e) st of
                            Inr st' \<Rightarrow> Inr (weather_error_response location e, st')
                          | Inl e' \<Rightarrow> Inl e')
      in case get_current_weather m env location units of
           Unusable e \<Rightarrow> on_exception e
         | Reading temperature description \<Rightarrow>
             (let weather_info =
                    \<lparr>weather_success = True, weather_location = location,
                     weather_temperature = temperature, weather_description = description,
                     weather_forecast = get_forecast m env location units,
                     weather_error = None\<rparr>
              in case call_callback callback weather_info st of
                   Inr st' \<Rightarrow> Inr (weather_info, st')
                 | Inl e \<Rightarrow> on_exception e))"

text \<open>The result \<open>get_weather\<close> hands a callback that does not raise.\<close>

definition weather_result ::
  "weather_module \<Rightarrow> config_data \<Rightarrow> environment \<Rightarrow> pyval \<Rightarrow> weather_info" where
  "weather_result m cfg env location =
     (case get_current_weather m env location
             (config_get cfg ''weather'' ''units'' (PStr ''metric'')) of
        Unusable e \<Rightarrow> weather_error_response location e
      | Reading temperature description \<Rightarrow>
          \<lparr>weather_success = True, weather_location = location,
           weather_temperature = temperature, weather_description = description,
           weather_forecast =
             get_forecast m env location (config_get cfg ''weather'' ''units'' (PStr ''metric'')),
           weather_error = None\<rparr>)"

section \<open>News module (\<open>modules/news_module.py\<close>)\<close>

record news_module =
  news_api_key :: "string option"

definition has_news_key :: "news_module \<Rightarrow> bool" where
  "has_news_key m = (case news_api_key m of None \<Rightarrow> False | Some k \<Rightarrow> k \<noteq> [])"

definition dummy_headlines :: articles where
  "dummy_headlines =
     Some [Some (PStr ''Sample News Headline 1''), Some (PStr ''Sample News Headline 2'')]"

definition get_headlines ::
  "news_module \<Rightarrow> environment \<Rightarrow> pyval \<Rightarrow> string \<Rightarrow> pyval \<Rightarrow> articles" where
  "get_headlines m env country category count =
     (if \<not> has_news_key m then dummy_headlines
      else case headlines_api env country category count of
             Some found \<Rightarrow> found
           | None \<Rightarrow> dummy_headlines)"

record news_info =
  news_success :: bool
  news_category :: string
  news_articles :: articles
  news_error :: "string option"

definition get_news ::
  "news_module \<Rightarrow> config_data \<Rightarrow> environment \<Rightarrow> string
     \<Rightarrow> (news_info \<Rightarrow> 'st \<Rightarrow> string + 'st) option \<Rightarrow> 'st \<Rightarrow> string + (news_info \<times> 'st)" where
  "get_news m cfg env category callback st =
     (let country = config_get cfg ''news'' ''default_country'' (PStr ''us'');
          count = config_get cfg ''news'' ''article_count'' (PInt 5);
          news_info =
            \<lparr>news_success = True, news_category = category,
             news_articles = get_headlines m env country category count, news_error = None\<rparr>
      in case call_callback callback news_info st of
           Inr st' \<Rightarrow> Inr (news_info, st')
         | Inl e \<Rightarrow>
             (let error_response =
                    \<lparr>news_success = False, news_category = category,
                     news_articles = dummy_headlines, news_error = Some e\<rparr>
              in case call_callback callback error_response st of
                   Inr st' \<Rightarrow> Inr (error_response, st')
                 | Inl e' \<Rightarrow> Inl e'))"

section \<open>AI module (\<open>modules/ai_module.py\<close>)\<close>

record ai_module =
  api_key :: "string option"
  openai_available :: bool

text \<open>\<open>if self.api_key\<close>: neither \<open>None\<close> nor the empty string.\<close>

definition has_api_key :: "ai_module \<Rightarrow> bool" where
  "has_api_key m = (case api_key m of None \<Rightarrow> False | Some k \<Rightarrow> k \<noteq> [])"

definition fallback_responses :: "string list" where
  "fallback_responses =
     [''I'm sorry, I can't access my AI services right now.'',
      ''I'm having trouble connecting to my knowledge base at the moment.'',
      ''I apologize, but I'm unable to process that request right now.'',
      ''My advanced AI capabilities are currently unavailable. Can I help with something basic instead?'']"

text \<open>\<open>random.choice(seq)\<close> is \<open>seq[i]\<close> for a drawn index \<open>i\<close> below \<open>len(seq)\<close>.\<close>

definition get_fallback_response :: "environment \<Rightarrow> string \<Rightarrow> string" where
  "get_fallback_response env prompt =
     fallback_responses ! (random_draw env mod length fallback_responses)"

definition generate_response :: "ai_module \<Rightarrow> environment \<Rightarrow> string \<Rightarrow> string" where
  "generate_response m env prompt =
     (if \<not> openai_available m \<or> \<not> has_api_key m then get_fallback_response env prompt
      else case openai_reply env of
             ApiChoices choices \<Rightarrow>
               (if choices \<noteq> [] \<and> length choices > 0 then hd choices
                else ''I'm not sure how to respond to that.'')
           | ApiError e \<Rightarrow> get_fallback_response env prompt)"

record response_info =
  success :: bool
  query :: string
  response :: string
  error :: "string option"

text \<open>
  \<open>process_query(query, callback)\<close>. An exception inside the \<open>try\<close> block is answered in the
  \<open>except\<close> block, which calls the callback a second time; an exception there leaves
  \<open>process_query\<close>.
\<close>

definition query_response :: "ai_module \<Rightarrow> environment \<Rightarrow> string \<Rightarrow> string" where
  "query_response m env q =
     (if has_api_key m then generate_response m env q else get_fallback_response env q)"

definition process_query ::
  "ai_module \<Rightarrow> environment \<Rightarrow> string \<Rightarrow> (response_info \<Rightarrow> 'st \<Rightarrow> string + 'st) option
     \<Rightarrow> 'st \<Rightarrow> string + (response_info \<times> 'st)" where
  "process_query m env q callback st =
     (let response_info =
            \<lparr>success = True, query = q, response = query_response m env q, error = None\<rparr>
      in case call_callback callback response_info st of
           Inr st' \<Rightarrow> Inr (response_info, st')
         | Inl e \<Rightarrow>
             (let error_response =
                    \<lparr>success = False, query = q,
                     response = ''I encountered an error processing your request.'',
                     error = Some e\<rparr>
              in case call_callback callback error_response st of
                   Inr st' \<Rightarrow> Inr (error_response, st')
                 | Inl e' \<Rightarrow> Inl e'))"

section \<open>The application (\<open>main.py\<close>)\<close>

record command_record =
  command :: string
  timestamp :: string
  intent :: string

text \<open>
  What the application does to the window, the speech output and the collaborators, in
  the order it does it. \<open>IntentClassified text tag\<close> is a call of
  \<open>get_command_intent(text)\<close> that returned \<open>tag\<close>, and \<open>MicButton enabled label\<close> sets the
  microphone button.
\<close>

datatype effect =
    UpdateResponse string
  | Speak string
  | QuitScheduled nat
  | IntentClassified string string
  | GetWeather pyval
  | GetNews string
  | ProcessQuery string
  | MicButton bool string

record ai_assistant_app =
  config :: config_data
  speech_module :: speech_recognition_module
  tts_speaking :: bool
  ai :: ai_module
  weather :: weather_module
  news :: news_module
  command_history :: "command_record list"
  recent_intents :: "string \<rightharpoonup> nat"
  is_listening_enabled :: bool
  effects :: "effect list"

definition max_history_size :: nat where
  "max_history_size = 20"

definition init_app ::
  "config_data \<Rightarrow> ai_module \<Rightarrow> weather_module \<Rightarrow> news_module \<Rightarrow> ai_assistant_app" where
  "init_app cfg m w n =
     \<lparr>config = cfg, speech_module = init_speech_module, tts_speaking = False, ai = m,
      weather = w, news = n,
      command_history = [], recent_intents = Map.empty, is_listening_enabled = False,
      effects = []\<rparr>"

definition perform :: "effect \<Rightarrow> ai_assistant_app \<Rightarrow> ai_assistant_app" where
  "perform e app = app\<lparr>effects := effects app @ [e]\<rparr>"

text \<open>\<open>MainWindow.add_assistant_message\<close>, \<open>MainWindow.add_user_message\<close>, \<open>TextToSpeechModule.speak\<close>.\<close>

definition add_assistant_message :: "string \<Rightarrow> ai_assistant_app \<Rightarrow> ai_assistant_app" where
  "add_assistant_message message app =
     (if message = [] then app else perform (UpdateResponse message) app)"

definition add_user_message :: "string \<Rightarrow> ai_assistant_app \<Rightarrow> ai_assistant_app" where
  "add_user_message message app =
     (if message = [] then app else perform (UpdateResponse (''You: '' @ message)) app)"

definition speak :: "string \<Rightarrow> ai_assistant_app \<Rightarrow> ai_assistant_app" where
  "speak text app = (if text = [] then app else perform (Speak text) app)"

definition handle_assistant_response :: "string \<Rightarrow> ai_assistant_app \<Rightarrow> ai_assistant_app" where
  "handle_assistant_response response_text app =
     speak response_text (add_assistant_message response_text app)"

text \<open>What \<open>handle_assistant_response\<close> shows and says for a response text.\<close>

definition said :: "string \<Rightarrow> effect list" where
  "said t = (if t = [] then [] else [UpdateResponse t, Speak t])"

text \<open>
  \<open>MainWindow.on_listening_started\<close> and \<open>on_listening_ended\<close>, the slots of the signals
  \<open>listening_started\<close> and \<open>listening_ended\<close>. The slot of \<open>text_recognized\<close> needs
  \<open>process_command\<close> and comes after it; the calls the application makes itself never
  emit that signal.
\<close>

definition on_listening_started :: "ai_assistant_app \<Rightarrow> ai_assistant_app" where
  "on_listening_started app =
     perform (MicButton False ''Listening...'') (perform (UpdateResponse ''Listening...'') app)"

definition on_listening_ended :: "ai_assistant_app \<Rightarrow> ai_assistant_app" where
  "on_listening_ended app = perform (MicButton True ''Press to Speak'') app"

definition window_signal :: "speech_signal \<Rightarrow> ai_assistant_app \<Rightarrow> ai_assistant_app" where
  "window_signal sig app =
     (case sig of
        ListeningStarted \<Rightarrow> on_listening_started app
      | ListeningEnded \<Rightarrow> on_listening_ended app
      | TextRecognized text \<Rightarrow> app)"

text \<open>
  The application calls a method of the speech module; the signals the call emits reach
  their slots at once.
\<close>

definition call_speech ::
  "(speech_recognition_module \<Rightarrow> speech_recognition_module) \<Rightarrow> ai_assistant_app
     \<Rightarrow> ai_assistant_app" where
  "call_speech method app =
     fold window_signal
       (new_signals (speech_module app) (method (speech_module app)))
       (app\<lparr>speech_module := method (speech_module app)\<rparr>)"

definition add_to_command_history ::
  "environment \<Rightarrow> string \<Rightarrow> ai_assistant_app \<Rightarrow> ai_assistant_app" where
  "add_to_command_history env cmd app =
     (let app1 = perform (IntentClassified cmd (get_command_intent cmd)) app;
          history = command_history app1 @
            [\<lparr>command = cmd, timestamp = now env, intent = get_command_intent cmd\<rparr>]
      in if length history > max_history_size
         then app1\<lparr>command_history := tl history\<rparr>
         else app1\<lparr>command_history := history\<rparr>)"

definition update_intent_frequency :: "string \<Rightarrow> ai_assistant_app \<Rightarrow> ai_assistant_app" where
  "update_intent_frequency tag app =
     (case recent_intents app tag of
        Some n \<Rightarrow> app\<lparr>recent_intents := (recent_intents app)(tag \<mapsto> n + 1)\<rparr>
      | None \<Rightarrow> app\<lparr>recent_intents := (recent_intents app)(tag \<mapsto> 1)\<rparr>)"

text \<open>The count \<open>recent_intents\<close> holds for a tag; a tag without an entry counts as 0.\<close>

definition intent_count :: "ai_assistant_app \<Rightarrow> string \<Rightarrow> nat" where
  "intent_count app tag = (case recent_intents app tag of None \<Rightarrow> 0 | Some n \<Rightarrow> n)"

definition help_text :: string where
  "help_text =
     ''Here are the things I can help you with:'' @ [CHR 0x0A] @
     ''- Weather information (e.g., 'What's the weather today?')'' @ [CHR 0x0A] @
     ''- News headlines (e.g., 'Show me the latest news')'' @ [CHR 0x0A] @
     ''- Reminders (e.g., 'Remind me to call mom')'' @ [CHR 0x0A] @
     ''- General questions (e.g., 'Who is the president?')'' @ [CHR 0x0A] @
     ''- System commands (e.g., 'exit', 'history')'' @ [CHR 0x0A, CHR 0x0A] @
     ''You can also ask me about your command history.''"

definition show_help :: "ai_assistant_app \<Rightarrow> ai_assistant_app" where
  "show_help app = handle_assistant_response help_text app"

definition show_command_history :: "ai_assistant_app \<Rightarrow> ai_assistant_app" where
  "show_command_history app =
     (if command_history app = []
      then handle_assistant_response ''You haven't given me any commands yet.'' app
      else
        let num_to_show = min 5 (length (command_history app));
            history_items = drop (length (command_history app) - num_to_show) (command_history app);
            response_text = ''Here are your recent commands:'' @ [CHR 0x0A] @
              concat (map (\<lambda>(i, item). str_of_nat i @ ''. '' @ command item @ '' ('' @
                             timestamp item @ '')'' @ [CHR 0x0A])
                        (enumerate 1 (rev history_items)))
        in handle_assistant_response response_text app)"

definition execute_direct_command ::
  "environment \<Rightarrow> string \<Rightarrow> ai_assistant_app \<Rightarrow> bool \<times> ai_assistant_app" where
  "execute_direct_command env command_text app =
     (if command_text \<in> set [''time'', ''current time'', ''what time is it''] then
        (True, handle_assistant_response (''The current time is '' @ clock_time env) app)
      else if command_text \<in> set [''date'', ''today'', ''what day is it'', ''current date''] then
        (True, handle_assistant_response (''Today is '' @ clock_date env) app)
      else if command_text \<in> set [''repeat'', ''repeat last'', ''say that again''] then
        (if command_history app \<noteq> [] \<and> length (command_history app) > 1
         then (True, handle_assistant_response
                 (''Your last command was: '' @
                    command (command_history app ! (length (command_history app) - 2))) app)
         else (True, handle_assistant_response ''You haven't made any previous commands.'' app))
      else if command_text \<in> set [''start listening'', ''listen''] then
        (True, handle_assistant_response ''I'm listening now.''
                 (call_speech start_listening app))
      else if command_text \<in> set [''stop listening'', ''stop''] then
        (True, handle_assistant_response ''I've stopped listening.''
                 (call_speech stop_listening app))
      else (False, app))"

definition command_prefixes :: "string list" where
  "command_prefixes = [''computer'', ''assistant'', ''hey assistant'', ''execute'', ''run'']"

definition process_system_command ::
  "environment \<Rightarrow> string \<Rightarrow> ai_assistant_app \<Rightarrow> bool \<times> ai_assistant_app" where
  "process_system_command env text app =
     (let text_lower = str_lower text;
          is_direct_command = list_ex (startswith text_lower) command_prefixes
      in case (if is_direct_command then find (startswith text_lower) command_prefixes else None) of
           Some p \<Rightarrow> execute_direct_command env (strip (drop (length p) text_lower)) app
         | None \<Rightarrow>
             if any_in [''exit'', ''quit'', ''close'', ''shutdown''] text_lower then
               (True, perform (QuitScheduled 2000)
                        (handle_assistant_response ''Shutting down. Goodbye!'' app))
             else if any_in [''help'', ''what can you do'', ''commands''] text_lower then
               (True, show_help app)
             else if any_in [''history'', ''previous commands'', ''what did i say''] text_lower then
               (True, show_command_history app)
             else (False, app))"

definition handle_weather_response :: "weather_info \<Rightarrow> ai_assistant_app \<Rightarrow> ai_assistant_app" where
  "handle_weather_response info app =
     (if weather_success info then
        handle_assistant_response
          (''The weather in '' @ py_str (weather_location info) @ '' is '' @
             py_str (weather_description info) @ '' with a temperature of '' @
             py_str (weather_temperature info) @ [CHR 0xB0] @ ''C.'' @
           (case weather_forecast info of
              Some f \<Rightarrow> '' Tomorrow's forecast: '' @ py_str f
            | None \<Rightarrow> [])) app
      else
        handle_assistant_response
          ''Sorry, I couldn't get the weather information. Please try again later.'' app)"

text \<open>
  \<open>handle_news_response\<close> raises while it builds the response when the articles cannot be
  sliced or one of the first three has no title; nothing has been shown or said by then.
\<close>

definition news_response_text :: "news_info \<Rightarrow> string + string" where
  "news_response_text info =
     (if news_success info then
        (case news_articles info of
           None \<Rightarrow> Inl ''articles''
         | Some titles \<Rightarrow>
             if list_ex (\<lambda>title. title = None) (take 3 titles) then Inl ''title''
             else Inr (''Here are the latest headlines: '' @
                    concat (map (\<lambda>(i, title). str_of_nat i @ ''. '' @
                                   (case title of Some t \<Rightarrow> py_str t | None \<Rightarrow> []) @ ''. '')
                              (enumerate 1 (take 3 titles)))))
      else Inr ''Sorry, I couldn't get the latest news. Please try again later.'')"

definition handle_news_response ::
  "news_info \<Rightarrow> ai_assistant_app \<Rightarrow> string + ai_assistant_app" where
  "handle_news_response info app =
     (case news_response_text info of
        Inl e \<Rightarrow> Inl e
      | Inr response_text \<Rightarrow> Inr (handle_assistant_response response_text app))"

definition handle_ai_response :: "response_info \<Rightarrow> ai_assistant_app \<Rightarrow> ai_assistant_app" where
  "handle_ai_response info app =
     (if success info then handle_assistant_response (response info) app
      else handle_assistant_response
             ''Sorry, I couldn't process your request. Please try again.'' app)"

text \<open>
  \<open>process_weather_command\<close> and \<open>process_news_command\<close> hand \<open>handle_weather_response\<close>
  and \<open>handle_news_response\<close> to the modules as callbacks. Neither raises on a result with
  \<open>success = False\<close>, so both modules return and the \<open>Inl\<close> cases below are never taken.
\<close>

definition process_weather_command ::
  "environment \<Rightarrow> string \<Rightarrow> ai_assistant_app \<Rightarrow> ai_assistant_app" where
  "process_weather_command env text app =
     (let location = config_get (config app) ''default_location'' ''Lucknow'' PNone
      in case get_weather (weather app) (config app) env location
                (Some (\<lambda>info a. Inr (handle_weather_response info a)))
                (perform (GetWeather location) app) of
           Inr (info, app') \<Rightarrow> app'
         | Inl e \<Rightarrow> perform (GetWeather location) app)"

definition process_news_command ::
  "environment \<Rightarrow> string \<Rightarrow> ai_assistant_app \<Rightarrow> ai_assistant_app" where
  "process_news_command env text app =
     (let category =
            (if str_in ''technology'' (str_lower text) \<or> str_in ''tech'' (str_lower text)
             then ''technology''
             else if str_in ''sports'' (str_lower text) then ''sports''
             else if str_in ''business'' (str_lower text) then ''business''
             else ''general'')
      in case get_news (news app) (config app) env category (Some handle_news_response)
                (perform (GetNews category) app) of
           Inr (info, app') \<Rightarrow> app'
         | Inl e \<Rightarrow> perform (GetNews category) app)"

definition process_reminder_command ::
  "string \<Rightarrow> ai_assistant_app \<Rightarrow> ai_assistant_app" where
  "process_reminder_command text app =
     handle_assistant_response ''I've set a reminder for you'' app"

text \<open>
  The general branch: \<open>self.ai_module.process_query(text, self.handle_ai_response)\<close>. The
  callback is \<open>handle_ai_response\<close>, which does not raise, so \<open>process_query\<close> returns and
  the \<open>Inl\<close> case below is never taken.
\<close>

definition process_general_command ::
  "environment \<Rightarrow> string \<Rightarrow> ai_assistant_app \<Rightarrow> ai_assistant_app" where
  "process_general_command env text app =
     (case process_query (ai app) env text
             (Some (\<lambda>info a. Inr (handle_ai_response info a)))
             (perform (ProcessQuery text) app) of
        Inr (info, app') \<Rightarrow> app'
      | Inl e \<Rightarrow> perform (ProcessQuery text) app)"

text \<open>\<open>process_command(text)\<close>; \<open>None\<close> is Python's \<open>None\<close>.\<close>

definition process_command ::
  "environment \<Rightarrow> string option \<Rightarrow> ai_assistant_app \<Rightarrow> ai_assistant_app" where
  "process_command env input app =
     (case input of
        None \<Rightarrow>
          handle_assistant_response ''I didn't catch that. Could you please speak again?'' app
      | Some text \<Rightarrow>
          if text = [] then
            handle_assistant_response ''I didn't catch that. Could you please speak again?'' app
          else
            let app1 = add_user_message text app;
                app2 = add_to_command_history env text app1;
                (handled, app3) = process_system_command env text app2
            in if handled then app3
               else
                 let command_intent = get_command_intent text;
                     app4 = perform (IntentClassified text command_intent) app3;
                     app5 = update_intent_frequency command_intent app4
                 in if command_intent = ''weather'' then process_weather_command env text app5
                    else if command_intent = ''news'' then process_news_command env text app5
                    else if command_intent = ''reminder'' then process_reminder_command text app5
                    else process_general_command env text app5)"

definition enable_listening :: "ai_assistant_app \<Rightarrow> ai_assistant_app" where
  "enable_listening app = call_speech start_listening (app\<lparr>is_listening_enabled := True\<rparr>)"

definition disable_listening :: "ai_assistant_app \<Rightarrow> ai_assistant_app" where
  "disable_listening app = call_speech stop_listening (app\<lparr>is_listening_enabled := False\<rparr>)"

definition resume_listening_after_tts :: "ai_assistant_app \<Rightarrow> ai_assistant_app" where
  "resume_listening_after_tts app =
     (if is_listening_enabled app then call_speech start_listening app else app)"

text \<open>
  \<open>TextToSpeechModule.on_start\<close> and \<open>on_finish\<close>, with the slots \<open>connect_signals\<close> wires to
  \<open>speech_started\<close> (\<open>speech_module.stop_listening\<close>) and \<open>speech_finished\<close>
  (\<open>resume_listening_after_tts\<close>).
\<close>

definition on_start :: "ai_assistant_app \<Rightarrow> ai_assistant_app" where
  "on_start app =
     (if \<not> tts_speaking app
      then call_speech stop_listening (app\<lparr>tts_speaking := True\<rparr>)
      else app)"

definition on_finish :: "ai_assistant_app \<Rightarrow> ai_assistant_app" where
  "on_finish app =
     (if tts_speaking app
      then resume_listening_after_tts (app\<lparr>tts_speaking := False\<rparr>)
      else app)"

text \<open>
  \<open>MainWindow.on_speech_recognized\<close>, the slot of \<open>text_recognized\<close>; it emits
  \<open>process_text_signal\<close>, whose slot is \<open>process_command\<close>.
\<close>

definition on_speech_recognized ::
  "environment \<Rightarrow> string \<Rightarrow> ai_assistant_app \<Rightarrow> ai_assistant_app" where
  "on_speech_recognized env text app =
     (if text = [] then app
      else process_command env (Some text)
             (perform (UpdateResponse (''You said: '' @ text @ [CHR 0x0A, CHR 0x0A] @
                                        ''Processing...'')) app))"

definition deliver_signal ::
  "environment \<Rightarrow> speech_signal \<Rightarrow> ai_assistant_app \<Rightarrow> ai_assistant_app" where
  "deliver_signal env sig app =
     (case sig of
        TextRecognized text \<Rightarrow> on_speech_recognized env text app
      | _ \<Rightarrow> window_signal sig app)"

text \<open>
  The capture thread moves on; the signals it emits reach their slots in the order it
  emitted them.
\<close>

definition on_thread_event ::
  "environment \<Rightarrow> (speech_recognition_module \<Rightarrow> speech_recognition_module)
     \<Rightarrow> ai_assistant_app \<Rightarrow> ai_assistant_app" where
  "on_thread_event env progress app =
     fold (deliver_signal env)
       (new_signals (speech_module app) (progress (speech_module app)))
       (app\<lparr>speech_module := progress (speech_module app)\<rparr>)"

text \<open>
  The events the foreground thread reacts to, and the reaction to each: the microphone
  button (\<open>start_listening_signal\<close>), \<open>stop_listening_signal\<close>, a text to process, speech
  output starting and finishing, the restart timer, the capture thread getting its audio,
  and the end of the capture thread. \<open>stop_listening_signal\<close> is connected to its slot,
  though no code of the window emits it.
\<close>

datatype event =
    StartListeningSignal
  | StopListeningSignal
  | ProcessText "string option"
  | SpeechStarted
  | SpeechFinished
  | RestartTimer
  | AudioCaptured
  | CaptureEnds capture_outcome

definition step :: "environment \<Rightarrow> event \<Rightarrow> ai_assistant_app \<Rightarrow> ai_assistant_app" where
  "step env e app =
     (case e of
        StartListeningSignal \<Rightarrow> enable_listening app
      | StopListeningSignal \<Rightarrow> disable_listening app
      | ProcessText input \<Rightarrow> process_command env input app
      | SpeechStarted \<Rightarrow> on_start app
      | SpeechFinished \<Rightarrow> on_finish app
      | RestartTimer \<Rightarrow> call_speech restart_timer_fires app
      | AudioCaptured \<Rightarrow> on_thread_event env audio_captured app
      | CaptureEnds outcome \<Rightarrow> on_thread_event env (capture_ends outcome) app)"

definition run_events ::
  "environment \<Rightarrow> event list \<Rightarrow> ai_assistant_app \<Rightarrow> ai_assistant_app" where
  "run_events env es app = fold (step env) es app"

text \<open>
  A sequence of \<open>add_to_command_history\<close> calls, each at its own moment, and the record a
  call appends.
\<close>

definition record_of :: "environment \<times> string \<Rightarrow> command_record" where
  "record_of call =
     \<lparr>command = snd call, timestamp = now (fst call), intent = get_command_intent (snd call)\<rparr>"

definition record_calls ::
  "(environment \<times> string) list \<Rightarrow> ai_assistant_app \<Rightarrow> ai_assistant_app" where
  "record_calls calls app = fold (\<lambda>call. add_to_command_history (fst call) (snd call)) calls app"

section \<open>A concrete world for evaluating the assistant\<close>

text \<open>
  An installation without API keys and without network: every request raises, and
  \<open>random.choice\<close> draws index \<open>0\<close>.
\<close>

definition offline_env :: environment where
  "offline_env =
     \<lparr>now = ''2024-01-01 12:00:00'', clock_time = ''12:00 PM'',
      clock_date = ''Monday, January 1, 2024'',
      weather_api = (\<lambda>city units. None),
      forecast_api = (\<lambda>city units. None),
      headlines_api = (\<lambda>country category count. None),
      openai_reply = ApiError ''no network'',
      random_draw = 0\<rparr>"

definition offline_ai :: ai_module where
  "offline_ai = \<lparr>api_key = None, openai_available = False\<rparr>"

definition fresh_app :: ai_assistant_app where
  "fresh_app =
     init_app create_default_config offline_ai \<lparr>weather_api_key = None\<rparr>
       \<lparr>news_api_key = None\<rparr>"


text \<open>
  The assistant while it speaks: listening was enabled, speech output has started, and the
  capture thread, asked to stop, has ended.
\<close>

definition suspended_app :: ai_assistant_app where
  "suspended_app =
     run_events offline_env [StartListeningSignal, SpeechStarted, CaptureEnds NoText] fresh_app"

text \<open>
  The assistant right after speech output has started: listening was enabled, and the
  capture thread, asked to stop, is still waiting for audio.
\<close>

definition stale_app :: ai_assistant_app where
  "stale_app = run_events offline_env [StartListeningSignal, SpeechStarted] fresh_app"

text \<open>A callback that raises on a successful result and counts the failures it is handed.\<close>

definition raising_callback :: "response_info \<Rightarrow> nat \<Rightarrow> string + nat" where
  "raising_callback info calls = (if success info then Inl ''display failed'' else Inr (calls + 1))"

text \<open>Twenty-five calls, the \<open>i\<close>-th with the command text \<open>str(i)\<close>.\<close>

definition numbered_calls :: "(environment \<times> string) list" where
  "numbered_calls = map (\<lambda>i. (offline_env, str_of_nat i)) [1..<26]"

section \<open>What each operation leaves unchanged\<close>

lemma perform_frame [simp]:
  "config (perform e a) = config a"
  "speech_module (perform e a) = speech_module a"
  "tts_speaking (perform e a) = tts_speaking a"
  "ai (perform e a) = ai a"
  "weather (perform e a) = weather a"
  "news (perform e a) = news a"
  "command_history (perform e a) = command_history a"
  "recent_intents (perform e a) = recent_intents a"
  "is_listening_enabled (perform e a) = is_listening_enabled a"
  "effects (perform e a) = effects a @ [e]"
  by (simp_all add: perform_def)

lemma handle_assistant_response_frame [simp]:
  "config (handle_assistant_response t a) = config a"
  "speech_module (handle_assistant_response t a) = speech_module a"
  "tts_speaking (handle_assistant_response t a) = tts_speaking a"
  "ai (handle_assistant_response t a) = ai a"
  "weather (handle_assistant_response t a) = weather a"
  "news (handle_assistant_response t a) = news a"
  "command_history (handle_assistant_response t a) = command_history a"
  "recent_intents (handle_assistant_response t a) = recent_intents a"
  "is_listening_enabled (handle_assistant_response t a) = is_listening_enabled a"
  "effects (handle_assistant_response t a) = effects a @ said t"
  by (simp_all add: handle_assistant_response_def speak_def add_assistant_message_def said_def)

lemma add_user_message_frame [simp]:
  "config (add_user_message t a) = config a"
  "speech_module (add_user_message t a) = speech_module a"
  "tts_speaking (add_user_message t a) = tts_speaking a"
  "ai (add_user_message t a) = ai a"
  "weather (add_user_message t a) = weather a"
  "news (add_user_message t a) = news a"
  "command_history (add_user_message t a) = command_history a"
  "recent_intents (add_user_message t a) = recent_intents a"
  "is_listening_enabled (add_user_message t a) = is_listening_enabled a"
  by (simp_all add: add_user_message_def)

lemma add_to_command_history_frame [simp]:
  "config (add_to_command_history env c a) = config a"
  "speech_module (add_to_command_history env c a) = speech_module a"
  "tts_speaking (add_to_command_history env c a) = tts_speaking a"
  "ai (add_to_command_history env c a) = ai a"
  "weather (add_to_command_history env c a) = weather a"
  "news (add_to_command_history env c a) = news a"
  "recent_intents (add_to_command_history env c a) = recent_intents a"
  "is_listening_enabled (add_to_command_history env c a) = is_listening_enabled a"
  "effects (add_to_command_history env c a) = effects a @ [IntentClassified c (get_command_intent c)]"
  by (simp_all add: add_to_command_history_def Let_def)

lemma update_intent_frequency_frame [simp]:
  "config (update_intent_frequency t a) = config a"
  "speech_module (update_intent_frequency t a) = speech_module a"
  "tts_speaking (update_intent_frequency t a) = tts_speaking a"
  "ai (update_intent_frequency t a) = ai a"
  "weather (update_intent_frequency t a) = weather a"
  "news (update_intent_frequency t a) = news a"
  "command_history (update_intent_frequency t a) = command_history a"
  "is_listening_enabled (update_intent_frequency t a) = is_listening_enabled a"
  "effects (update_intent_frequency t a) = effects a"
  by (simp_all add: update_intent_frequency_def split: option.split)

lemma show_help_frame [simp]:
  "config (show_help a) = config a"
  "speech_module (show_help a) = speech_module a"
  "tts_speaking (show_help a) = tts_speaking a"
  "ai (show_help a) = ai a"
  "weather (show_help a) = weather a"
  "news (show_help a) = news a"
  "command_history (show_help a) = command_history a"
  "recent_intents (show_help a) = recent_intents a"
  "is_listening_enabled (show_help a) = is_listening_enabled a"
  by (simp_all add: show_help_def)

lemma show_command_history_frame [simp]:
  "config (show_command_history a) = config a"
  "speech_module (show_command_history a) = speech_module a"
  "tts_speaking (show_command_history a) = tts_speaking a"
  "ai (show_command_history a) = ai a"
  "weather (show_command_history a) = weather a"
  "news (show_command_history a) = news a"
  "command_history (show_command_history a) = command_history a"
  "recent_intents (show_command_history a) = recent_intents a"
  "is_listening_enabled (show_command_history a) = is_listening_enabled a"
  by (simp_all add: show_command_history_def Let_def)

lemma window_signal_frame [simp]:
  "config (window_signal s a) = config a"
  "speech_module (window_signal s a) = speech_module a"
  "tts_speaking (window_signal s a) = tts_speaking a"
  "ai (window_signal s a) = ai a"
  "weather (window_signal s a) = weather a"
  "news (window_signal s a) = news a"
  "command_history (window_signal s a) = command_history a"
  "recent_intents (window_signal s a) = recent_intents a"
  "is_listening_enabled (window_signal s a) = is_listening_enabled a"
  by (cases s; simp add: window_signal_def on_listening_started_def on_listening_ended_def)+

lemma window_signals_frame [simp]:
  "config (fold window_signal sigs a) = config a"
  "speech_module (fold window_signal sigs a) = speech_module a"
  "tts_speaking (fold window_signal sigs a) = tts_speaking a"
  "ai (fold window_signal sigs a) = ai a"
  "weather (fold window_signal sigs a) = weather a"
  "news (fold window_signal sigs a) = news a"
  "command_history (fold window_signal sigs a) = command_history a"
  "recent_intents (fold window_signal sigs a) = recent_intents a"
  "is_listening_enabled (fold window_signal sigs a) = is_listening_enabled a"
  by (induction sigs arbitrary: a; simp)+

lemma call_speech_frame [simp]:
  "config (call_speech method a) = config a"
  "tts_speaking (call_speech method a) = tts_speaking a"
  "ai (call_speech method a) = ai a"
  "weather (call_speech method a) = weather a"
  "news (call_speech method a) = news a"
  "command_history (call_speech method a) = command_history a"
  "recent_intents (call_speech method a) = recent_intents a"
  "is_listening_enabled (call_speech method a) = is_listening_enabled a"
  "speech_module (call_speech method a) = method (speech_module a)"
  by (simp_all add: call_speech_def)

lemma execute_direct_command_frame [simp]:
  "config (snd (execute_direct_command env c a)) = config a"
  "tts_speaking (snd (execute_direct_command env c a)) = tts_speaking a"
  "ai (snd (execute_direct_command env c a)) = ai a"
  "weather (snd (execute_direct_command env c a)) = weather a"
  "news (snd (execute_direct_command env c a)) = news a"
  "command_history (snd (execute_direct_command env c a)) = command_history a"
  "recent_intents (snd (execute_direct_command env c a)) = recent_intents a"
  "is_listening_enabled (snd (execute_direct_command env c a)) = is_listening_enabled a"
  by (simp_all add: execute_direct_command_def)

lemma process_system_command_frame [simp]:
  "config (snd (process_system_command env t a)) = config a"
  "tts_speaking (snd (process_system_command env t a)) = tts_speaking a"
  "ai (snd (process_system_command env t a)) = ai a"
  "weather (snd (process_system_command env t a)) = weather a"
  "news (snd (process_system_command env t a)) = news a"
  "command_history (snd (process_system_command env t a)) = command_history a"
  "recent_intents (snd (process_system_command env t a)) = recent_intents a"
  "is_listening_enabled (snd (process_system_command env t a)) = is_listening_enabled a"
  by (simp_all add: process_system_command_def Let_def split: option.split)

lemma process_general_command_eq:
  "process_general_command env text a =
     handle_ai_response
       \<lparr>success = True, query = text, response = query_response (ai a) env text, error = None\<rparr>
       (perform (ProcessQuery text) a)"
  by (simp add: process_general_command_def process_query_def call_callback_def Let_def)

lemma get_weather_returns:
  "get_weather m cfg env location (Some (\<lambda>info st. Inr (slot info st))) st =
     Inr (weather_result m cfg env location, slot (weather_result m cfg env location) st)"
  by (simp add: get_weather_def weather_result_def call_callback_def Let_def
      split: weather_data.split)

lemma process_weather_command_eq:
  "process_weather_command env text a =
     handle_weather_response
       (weather_result (weather a) (config a) env
          (config_get (config a) ''default_location'' ''Lucknow'' PNone))
       (perform (GetWeather (config_get (config a) ''default_location'' ''Lucknow'' PNone)) a)"
  by (simp add: process_weather_command_def get_weather_returns Let_def)

lemma handle_news_response_failure:
  "\<not> news_success info \<Longrightarrow>
   handle_news_response info a =
     Inr (handle_assistant_response
            ''Sorry, I couldn't get the latest news. Please try again later.'' a)"
  by (simp add: handle_news_response_def news_response_text_def)

lemma get_news_shown:
  "\<exists>info response_text.
     get_news m cfg env category (Some handle_news_response) a =
       Inr (info, handle_assistant_response response_text a)"
proof (cases "handle_news_response
       \<lparr>news_success = True, news_category = category,
        news_articles = get_headlines m env
          (config_get cfg ''news'' ''default_country'' (PStr ''us'')) category
          (config_get cfg ''news'' ''article_count'' (PInt 5)),
        news_error = None\<rparr> a")
  case (Inl e)
  then show ?thesis
    by (auto simp: get_news_def call_callback_def Let_def handle_news_response_failure)
next
  case (Inr shown)
  then show ?thesis
    by (auto simp: get_news_def call_callback_def Let_def handle_news_response_def
        split: sum.splits)
qed

lemma process_news_command_shown:
  "\<exists>category response_text.
     process_news_command env text a =
       handle_assistant_response response_text (perform (GetNews category) a)"
proof -
  define category where "category =
            (if str_in ''technology'' (str_lower text) \<or> str_in ''tech'' (str_lower text)
             then ''technology''
             else if str_in ''sports'' (str_lower text) then ''sports''
             else if str_in ''business'' (str_lower text) then ''business''
             else ''general'')"
  from get_news_shown [of "news a" "config a" env category "perform (GetNews category) a"]
  obtain info response_text where
    "get_news (news a) (config a) env category (Some handle_news_response)
       (perform (GetNews category) a) =
     Inr (info, handle_assistant_response response_text (perform (GetNews category) a))"
    by blast
  then have "process_news_command env text a =
       handle_assistant_response response_text (perform (GetNews category) a)"
    by (simp add: process_news_command_def Let_def category_def)
  then show ?thesis by blast
qed

lemma process_weather_command_frame [simp]:
  "config (process_weather_command env t a) = config a"
  "speech_module (process_weather_command env t a) = speech_module a"
  "tts_speaking (process_weather_command env t a) = tts_speaking a"
  "ai (process_weather_command env t a) = ai a"
  "weather (process_weather_command env t a) = weather a"
  "news (process_weather_command env t a) = news a"
  "command_history (process_weather_command env t a) = command_history a"
  "recent_intents (process_weather_command env t a) = recent_intents a"
  "is_listening_enabled (process_weather_command env t a) = is_listening_enabled a"
  by (simp_all add: process_weather_command_eq handle_weather_response_def)

lemma process_news_command_frame [simp]:
  "config (process_news_command env t a) = config a"
  "speech_module (process_news_command env t a) = speech_module a"
  "tts_speaking (process_news_command env t a) = tts_speaking a"
  "ai (process_news_command env t a) = ai a"
  "weather (process_news_command env t a) = weather a"
  "news (process_news_command env t a) = news a"
  "command_history (process_news_command env t a) = command_history a"
  "recent_intents (process_news_command env t a) = recent_intents a"
  "is_listening_enabled (process_news_command env t a) = is_listening_enabled a"
  using process_news_command_shown [of env t a] by auto

lemma process_reminder_command_frame [simp]:
  "config (process_reminder_command t a) = config a"
  "speech_module (process_reminder_command t a) = speech_module a"
  "tts_speaking (process_reminder_command t a) = tts_speaking a"
  "ai (process_reminder_command t a) = ai a"
  "weather (process_reminder_command t a) = weather a"
  "news (process_reminder_command t a) = news a"
  "command_history (process_reminder_command t a) = command_history a"
  "recent_intents (process_reminder_command t a) = recent_intents a"
  "is_listening_enabled (process_reminder_command t a) = is_listening_enabled a"
  by (simp_all add: process_reminder_command_def)

lemma process_general_command_frame [simp]:
  "config (process_general_command env t a) = config a"
  "speech_module (process_general_command env t a) = speech_module a"
  "tts_speaking (process_general_command env t a) = tts_speaking a"
  "ai (process_general_command env t a) = ai a"
  "weather (process_general_command env t a) = weather a"
  "news (process_general_command env t a) = news a"
  "command_history (process_general_command env t a) = command_history a"
  "recent_intents (process_general_command env t a) = recent_intents a"
  "is_listening_enabled (process_general_command env t a) = is_listening_enabled a"
  by (simp_all add: process_general_command_eq handle_ai_response_def)

lemma process_command_frame [simp]:
  "config (process_command env input a) = config a"
  "tts_speaking (process_command env input a) = tts_speaking a"
  "ai (process_command env input a) = ai a"
  "weather (process_command env input a) = weather a"
  "news (process_command env input a) = news a"
  "is_listening_enabled (process_command env input a) = is_listening_enabled a"
  by (simp_all add: process_command_def Let_def split_beta split: option.split)

section \<open>The classifier\<close>

lemma classify_refines: "get_command_intent text = classify_spec text"
  by (simp add: get_command_intent_def classify_spec_def intent_table_def any_in_def
      str_in_def Let_def list_ex_iff)

lemma keywords_of_table:
  "keywords_of ''weather'' = [''weather'', ''temperature'', ''forecast'']"
  "keywords_of ''news'' = [''news'', ''headlines'', ''latest'']"
  "keywords_of ''reminder'' = [''remind'', ''reminder'', ''schedule'']"
  "keywords_of ''time'' = [''time'', ''date'', ''day'']"
  "keywords_of ''help'' = [''help'', ''command'', ''what can you do'']"
  by (simp_all add: keywords_of_def intent_table_def)

lemma weather_first:
  "has_keyword ''weather'' text \<Longrightarrow> get_command_intent text = ''weather''"
  by (simp add: has_keyword_def keywords_of_table get_command_intent_def Let_def)

lemma no_keyword_general:
  assumes "\<forall>tag \<in> set (map fst intent_table). \<not> has_keyword tag text"
  shows "get_command_intent text = ''general''"
proof -
  from assms have
    "\<not> any_in [''weather'', ''temperature'', ''forecast''] (str_lower text)"
    "\<not> any_in [''news'', ''headlines'', ''latest''] (str_lower text)"
    "\<not> any_in [''remind'', ''reminder'', ''schedule''] (str_lower text)"
    "\<not> any_in [''time'', ''date'', ''day''] (str_lower text)"
    "\<not> any_in [''help'', ''command'', ''what can you do''] (str_lower text)"
    by (simp_all add: intent_table_def has_keyword_def keywords_of_table)
  then show ?thesis
    by (simp add: get_command_intent_def Let_def)
qed

text \<open>
  C6: \<open>get_command_intent\<close> is a function of the text alone (total and deterministic, as
  every HOL function is) and equals the table-driven classifier of the specification, so
  the first matching tag in the order weather, news, reminder, time, help wins. It looks
  at the lower-cased text only, so two texts that differ in letter case get the same tag.
  A text with a weather keyword and no news or reminder keyword is tagged \<open>weather\<close>, and
  a text in which no tag has a keyword is tagged \<open>general\<close>.
\<close>

theorem get_command_intent_priority:
  "get_command_intent text = classify_spec text
   \<and> (str_lower text = str_lower text' \<longrightarrow> get_command_intent text = get_command_intent text')
   \<and> (has_keyword ''weather'' text \<and> \<not> has_keyword ''news'' text
        \<and> \<not> has_keyword ''reminder'' text \<longrightarrow> get_command_intent text = ''weather'')
   \<and> ((\<forall>tag \<in> set (map fst intent_table). \<not> has_keyword tag text)
        \<longrightarrow> get_command_intent text = ''general'')"
proof (intro conjI impI)
  show "get_command_intent text = classify_spec text"
    by (rule classify_refines)
  show "get_command_intent text = get_command_intent text'"
    if "str_lower text = str_lower text'"
    using that by (simp add: get_command_intent_def)
  show "get_command_intent text = ''weather''"
    if "has_keyword ''weather'' text \<and> \<not> has_keyword ''news'' text
        \<and> \<not> has_keyword ''reminder'' text"
    using that by (simp add: weather_first)
  show "get_command_intent text = ''general''"
    if "\<forall>tag \<in> set (map fst intent_table). \<not> has_keyword tag text"
    using that by (rule no_keyword_general)
qed

lemmas keyword_eval =
  has_keyword_def keywords_of_table any_in_def str_in_def str_lower_def lower_char_def upper_letters_def lower_letters_def
  sublist_Cons_right intent_table_def

theorem get_command_intent_priority_witness:
  "str_lower ''What's the WEATHER in Paris'' = str_lower ''what's the weather in paris''
   \<and> has_keyword ''weather'' ''What's the WEATHER in Paris''
   \<and> \<not> has_keyword ''news'' ''What's the WEATHER in Paris''
   \<and> \<not> has_keyword ''reminder'' ''What's the WEATHER in Paris''
   \<and> get_command_intent ''What's the WEATHER in Paris'' = ''weather''
   \<and> get_command_intent ''what's the weather in paris'' = ''weather''
   \<and> \<not> list_ex (\<lambda>tag. has_keyword tag ''tell me a joke'') (map fst intent_table)
   \<and> get_command_intent ''tell me a joke'' = ''general''"
proof -
  have lower: "str_lower ''What's the WEATHER in Paris'' = str_lower ''what's the weather in paris''"
    by (simp add: str_lower_def lower_char_def upper_letters_def lower_letters_def)
  have w: "has_keyword ''weather'' ''What's the WEATHER in Paris''"
    by (simp add: keyword_eval)
  have n: "\<not> has_keyword ''news'' ''What's the WEATHER in Paris''"
    by (simp add: keyword_eval)
  have r: "\<not> has_keyword ''reminder'' ''What's the WEATHER in Paris''"
    by (simp add: keyword_eval)
  have g: "\<forall>tag \<in> set (map fst intent_table). \<not> has_keyword tag ''tell me a joke''"
    by (simp add: keyword_eval)
  note weather_case = get_command_intent_priority
         [of "''What's the WEATHER in Paris''" "''what's the weather in paris''"]
  note general_case = get_command_intent_priority [of "''tell me a joke''" "''tell me a joke''"]
  from weather_case w n r
  have c1: "get_command_intent ''What's the WEATHER in Paris'' = ''weather''" by blast
  from weather_case lower c1
  have c2: "get_command_intent ''what's the weather in paris'' = ''weather''" by metis
  from general_case g
  have c3: "get_command_intent ''tell me a joke'' = ''general''" by blast
  from g have g': "\<not> list_ex (\<lambda>tag. has_keyword tag ''tell me a joke'') (map fst intent_table)"
    unfolding list_ex_iff by blast
  from lower w n r c1 c2 g' c3 show ?thesis by blast
qed

section \<open>The command history\<close>

lemma history_step:
  "command_history (add_to_command_history env cmd app) =
     (let h = command_history app @ [record_of (env, cmd)]
      in if length h > 20 then tl h else h)"
  by (simp add: add_to_command_history_def record_of_def perform_def max_history_size_def Let_def)

lemma record_calls_snoc:
  "record_calls (calls @ [c]) app = add_to_command_history (fst c) (snd c) (record_calls calls app)"
  by (simp add: record_calls_def)

lemma tl_drop_snoc: "n < length H \<Longrightarrow> tl (drop n H @ [r]) = drop (Suc n) (H @ [r])"
proof -
  assume n: "n < length H"
  then have "drop n H \<noteq> []" by simp
  then have "tl (drop n H @ [r]) = tl (drop n H) @ [r]" by (cases "drop n H") simp_all
  also have "tl (drop n H) = drop (Suc n) H" by (simp add: drop_Suc drop_tl)
  finally show ?thesis using n by simp
qed

lemma keep_last_step:
  "(let h = drop (length H - 20) H @ [r] in if length h > 20 then tl h else h)
     = drop (length (H @ [r]) - 20) (H @ [r])"
proof (cases "length H < 20")
  case True
  then show ?thesis by (simp add: Let_def)
next
  case False
  then have "length H - 20 < length H" by simp
  moreover from False have "Suc (length H - 20) = length H - 19" by arith
  ultimately show ?thesis using tl_drop_snoc [of "length H - 20" H r] False
    by (simp add: Let_def)
qed

lemma history_after_calls:
  "length (command_history app) \<le> 20 \<Longrightarrow>
   command_history (record_calls calls app) =
     drop (length (command_history app @ map record_of calls) - 20)
          (command_history app @ map record_of calls)"
proof (induction calls rule: rev_induct)
  case Nil
  then show ?case by (simp add: record_calls_def)
next
  case (snoc c calls)
  let ?H = "command_history app @ map record_of calls"
  have IH: "command_history (record_calls calls app) = drop (length ?H - 20) ?H"
    using snoc by simp
  have "command_history (record_calls (calls @ [c]) app) =
          (let h = drop (length ?H - 20) ?H @ [record_of c] in if length h > 20 then tl h else h)"
    unfolding record_calls_snoc history_step IH by simp
  also have "\<dots> = drop (length (?H @ [record_of c]) - 20) (?H @ [record_of c])"
    by (rule keep_last_step)
  finally show ?case by simp
qed

text \<open>
  C5: the command history is a bounded queue. A history within the capacity of 20 stays
  within it after any sequence of \<open>add_to_command_history\<close> calls; and 25 calls on an
  empty history leave exactly 20 records, those of calls 6 to 25 in the order of the
  calls, so the oldest record left is the one of call 6.
\<close>

theorem command_history_bounded_fifo:
  "(length (command_history app) \<le> max_history_size
      \<longrightarrow> length (command_history (record_calls calls app)) \<le> max_history_size)
   \<and> (command_history app = [] \<and> length calls = 25
      \<longrightarrow> length (command_history (record_calls calls app)) = 20
          \<and> command_history (record_calls calls app) = map record_of (drop 5 calls)
          \<and> hd (command_history (record_calls calls app)) = record_of (calls ! 5))"
proof (intro conjI impI)
  assume "length (command_history app) \<le> max_history_size"
  then show "length (command_history (record_calls calls app)) \<le> max_history_size"
    by (simp add: max_history_size_def history_after_calls)
next
  assume a: "command_history app = [] \<and> length calls = 25"
  then have h: "command_history (record_calls calls app) = map record_of (drop 5 calls)"
    by (simp add: history_after_calls drop_map)
  from a show "length (command_history (record_calls calls app)) = 20"
    by (simp add: h)
  from h show "command_history (record_calls calls app) = map record_of (drop 5 calls)" .
  from a show "hd (command_history (record_calls calls app)) = record_of (calls ! 5)"
    by (simp add: h hd_map hd_drop_conv_nth)
qed

theorem command_history_bounded_fifo_witness:
  "length (command_history fresh_app) \<le> max_history_size
   \<and> length (command_history (record_calls numbered_calls fresh_app)) \<le> max_history_size
   \<and> command_history fresh_app = [] \<and> length numbered_calls = 25
   \<and> length (command_history (record_calls numbered_calls fresh_app)) = 20
   \<and> command (hd (command_history (record_calls numbered_calls fresh_app))) = ''6''"
proof -
  have e: "command_history fresh_app = []"
    by (simp add: fresh_app_def init_app_def)
  have l: "length numbered_calls = 25"
    by (simp add: numbered_calls_def)
  have six: "command (record_of (numbered_calls ! 5)) = ''6''"
    by (simp add: numbered_calls_def record_of_def str_of_nat.simps)
  note fifo = command_history_bounded_fifo [of fresh_app numbered_calls]
  from fifo e l
  have len: "length (command_history (record_calls numbered_calls fresh_app)) = 20" by blast
  from fifo e l
  have "hd (command_history (record_calls numbered_calls fresh_app)) = record_of (numbered_calls ! 5)"
    by blast
  then have oldest: "command (hd (command_history (record_calls numbered_calls fresh_app))) = ''6''"
    using six by simp
  have small: "length (command_history fresh_app) \<le> max_history_size"
    by (simp add: e)
  with fifo
  have bounded: "length (command_history (record_calls numbered_calls fresh_app)) \<le> max_history_size"
    by blast
  from small bounded e l len oldest show ?thesis by blast
qed

section \<open>Auto-restart after a timeout\<close>

lemma timeout_round_restarts:
  assumes "thread_running m" "timeout_count m = 0" "restart_checks m = 1"
  shows "thread_running (timeout_round m) \<and> timeout_count (timeout_round m) = 0
         \<and> restart_checks (timeout_round m) = 1
         \<and> sessions_started (timeout_round m) = Suc (sessions_started m)"
  using assms
  by (simp add: timeout_round_def capture_ends_def restart_timer_fires_def
      check_and_restart_listening_def start_listening_def max_timeouts_def)

lemma timeout_rounds_restart:
  "thread_running ((timeout_round ^^ n) (start_listening init_speech_module))
   \<and> timeout_count ((timeout_round ^^ n) (start_listening init_speech_module)) = 0
   \<and> restart_checks ((timeout_round ^^ n) (start_listening init_speech_module)) = 1
   \<and> sessions_started ((timeout_round ^^ n) (start_listening init_speech_module)) = Suc n"
proof (induction n)
  case 0
  show ?case by (simp add: start_listening_def init_speech_module_def)
next
  case (Suc n)
  then show ?case
    using timeout_round_restarts [of "(timeout_round ^^ n) (start_listening init_speech_module)"]
    by simp
qed

text \<open>
  C1: what the code does where the claim expects the counter to count. A
  \<open>check_and_restart_listening\<close> step on the idle module raises \<open>timeout_count\<close> to 1 and
  calls \<open>start_listening\<close>, which sets it back to 0: the step ends with the counter at 0,
  not 1. So after an explicit start, any number \<open>n\<close> of timeouts in a row (four, for one)
  leaves the module listening, in its \<open>n + 1\<close>-th capture session, with the counter at 0:
  the branch that stops the auto-restart is never reached.
\<close>

theorem auto_restart_never_halts:
  "timeout_count (check_and_restart_listening init_speech_module) = 0
   \<and> thread_running ((timeout_round ^^ n) (start_listening init_speech_module))
   \<and> timeout_count ((timeout_round ^^ n) (start_listening init_speech_module)) = 0
   \<and> sessions_started ((timeout_round ^^ n) (start_listening init_speech_module)) = Suc n"
  using timeout_rounds_restart [of n]
  by (simp add: check_and_restart_listening_def start_listening_def init_speech_module_def
      max_timeouts_def)

section \<open>The router\<close>

text \<open>
  C7: for a missing (\<open>None\<close>) or empty text, \<open>process_command\<close> shows and speaks the fixed
  apology and changes nothing else; in particular the command history is as before.
\<close>

theorem empty_input_apology:
  "process_command env None app =
     app\<lparr>effects := effects app @
            [UpdateResponse ''I didn't catch that. Could you please speak again?'',
             Speak ''I didn't catch that. Could you please speak again?'']\<rparr>
   \<and> process_command env (Some []) app =
     app\<lparr>effects := effects app @
            [UpdateResponse ''I didn't catch that. Could you please speak again?'',
             Speak ''I didn't catch that. Could you please speak again?'']\<rparr>
   \<and> command_history (process_command env None app) = command_history app
   \<and> command_history (process_command env (Some []) app) = command_history app"
  by (simp add: process_command_def handle_assistant_response_def speak_def
      add_assistant_message_def perform_def)

section \<open>The system-command path and the intent frequencies\<close>

lemma exit_intent: "get_command_intent ''exit'' = ''general''"
  by code_simp

lemma exit_system:
  "process_system_command env ''exit'' a =
     (True, perform (QuitScheduled 2000) (handle_assistant_response ''Shutting down. Goodbye!'' a))"
  by (simp add: process_system_command_def Let_def str_lower_def lower_char_def upper_letters_def lower_letters_def startswith_def
      command_prefixes_def any_in_def str_in_def sublist_Cons_right)

text \<open>
  C3, as amended: for the input \<open>exit\<close> the system-command path handles the command:
  the confirmation is shown and spoken, the quit is scheduled 2000 ms later, the intent
  frequencies are not updated and no collaborator is called. The input is classified all
  the same, once: \<open>add_to_command_history\<close> calls \<open>get_command_intent\<close> to tag the history
  record, before the system-command path is tried.
\<close>

theorem exit_fast_path:
  "fst (process_system_command env ''exit'' app)
   \<and> effects (process_command env (Some ''exit'') app) =
       effects app @
       [UpdateResponse ''You: exit'', IntentClassified ''exit'' ''general'',
        UpdateResponse ''Shutting down. Goodbye!'', Speak ''Shutting down. Goodbye!'',
        QuitScheduled 2000]
   \<and> recent_intents (process_command env (Some ''exit'') app) = recent_intents app
   \<and> speech_module (process_command env (Some ''exit'') app) = speech_module app"
  by (simp add: process_command_def Let_def exit_system exit_intent add_user_message_def said_def)

text \<open>
  C3, as stated, fails: handling \<open>exit\<close> does call \<open>get_command_intent\<close> on it, and the
  history record carries the resulting tag.
\<close>

theorem exit_is_classified:
  "IntentClassified ''exit'' ''general''
     \<in> set (effects (process_command offline_env (Some ''exit'') fresh_app))
   \<and> map intent (command_history (process_command offline_env (Some ''exit'') fresh_app))
       = [''general'']"
  by code_simp

lemma system_handled_indep:
  "fst (process_system_command env t a) = fst (process_system_command env' t a')"
  by (simp add: process_system_command_def execute_direct_command_def Let_def split: option.split)

lemma update_intent_frequency_count:
  "intent_count (update_intent_frequency t a) tag = intent_count a tag + (if tag = t then 1 else 0)"
  by (simp add: update_intent_frequency_def intent_count_def split: option.split)

lemma intent_count_cong: "recent_intents a = recent_intents b \<Longrightarrow> intent_count a tag = intent_count b tag"
  by (simp add: intent_count_def)

lemma dispatch_count [simp]:
  "intent_count (process_weather_command env t a) tag = intent_count a tag"
  "intent_count (process_news_command env t a) tag = intent_count a tag"
  "intent_count (process_reminder_command t a) tag = intent_count a tag"
  "intent_count (process_general_command env t a) tag = intent_count a tag"
  "intent_count (perform e a) tag = intent_count a tag"
  "intent_count (add_user_message t a) tag = intent_count a tag"
  "intent_count (add_to_command_history env t a) tag = intent_count a tag"
  "intent_count (snd (process_system_command env t a)) tag = intent_count a tag"
  "intent_count (handle_assistant_response t a) tag = intent_count a tag"
  "intent_count (window_signal s a) tag = intent_count a tag"
  "intent_count (call_speech method a) tag = intent_count a tag"
  by (simp_all add: intent_count_def)

lemma process_command_history:
  "text \<noteq> [] \<Longrightarrow>
   command_history (process_command env (Some text) a) =
     command_history (add_to_command_history env text a)"
  by (simp add: process_command_def Let_def split_beta add_to_command_history_def)

lemma process_command_count:
  "text \<noteq> [] \<Longrightarrow>
   intent_count (process_command env (Some text) a) tag =
     (if fst (process_system_command env text a) then intent_count a tag
      else intent_count a tag + (if tag = get_command_intent text then 1 else 0))"
  using system_handled_indep [of env "text" "add_to_command_history env text (add_user_message text a)" env a]
  by (simp add: process_command_def Let_def split_beta update_intent_frequency_count)


lemma process_command_count_mono:
  "intent_count a tag \<le> intent_count (process_command env input a) tag"
proof (cases input)
  case None
  then show ?thesis by (simp add: process_command_def)
next
  case (Some t)
  show ?thesis
  proof (cases "t = []")
    case True
    with Some show ?thesis by (simp add: process_command_def)
  next
    case False
    with Some show ?thesis by (simp add: process_command_count)
  qed
qed

lemma on_speech_recognized_count_mono:
  "intent_count a tag \<le> intent_count (on_speech_recognized env t a) tag"
proof (cases "t = []")
  case True
  then show ?thesis by (simp add: on_speech_recognized_def)
next
  case False
  let ?shown = "perform (UpdateResponse (''You said: '' @ t @ [CHR 0x0A, CHR 0x0A] @
                                        ''Processing...'')) a"
  have "intent_count a tag = intent_count ?shown tag" by simp
  also have "\<dots> \<le> intent_count (process_command env (Some t) ?shown) tag"
    by (rule process_command_count_mono)
  finally show ?thesis using False by (simp add: on_speech_recognized_def)
qed

lemma deliver_signal_count_mono:
  "intent_count a tag \<le> intent_count (deliver_signal env s a) tag"
  by (cases s) (simp_all add: deliver_signal_def on_speech_recognized_count_mono)

lemma deliver_signals_count_mono:
  "intent_count a tag \<le> intent_count (fold (deliver_signal env) sigs a) tag"
proof (induction sigs arbitrary: a)
  case Nil
  show ?case by simp
next
  case (Cons s sigs)
  have "intent_count a tag \<le> intent_count (deliver_signal env s a) tag"
    by (rule deliver_signal_count_mono)
  also have "\<dots> \<le> intent_count (fold (deliver_signal env) sigs (deliver_signal env s a)) tag"
    by (rule Cons.IH)
  finally show ?case by simp
qed

lemma on_thread_event_count_mono:
  "intent_count a tag \<le> intent_count (on_thread_event env progress a) tag"
proof -
  have "intent_count (a\<lparr>speech_module := progress (speech_module a)\<rparr>) tag = intent_count a tag"
    by (simp add: intent_count_def)
  with deliver_signals_count_mono
         [of "a\<lparr>speech_module := progress (speech_module a)\<rparr>" tag env
             "new_signals (speech_module a) (progress (speech_module a))"]
  show ?thesis by (simp add: on_thread_event_def)
qed

lemma step_count_mono: "intent_count a tag \<le> intent_count (step env e a) tag"
proof (cases e)
  case (ProcessText input)
  then show ?thesis by (simp add: step_def process_command_count_mono)
next
  case AudioCaptured
  then show ?thesis by (simp add: step_def on_thread_event_count_mono)
next
  case (CaptureEnds outcome)
  then show ?thesis by (simp add: step_def on_thread_event_count_mono)
qed (simp_all add: step_def enable_listening_def disable_listening_def
       on_start_def on_finish_def resume_listening_after_tts_def, simp_all add: intent_count_def)

text \<open>
  C4, as amended: every processed (non-empty) command appends a record to the history.
  The count of its intent tag goes up by exactly one when the system-command path does not
  handle the command, and no count changes when it does. No event ever lowers a count.
\<close>

theorem intent_frequency_counts_dispatched:
  "(text \<noteq> []
      \<longrightarrow> command_history (process_command env (Some text) app) =
            command_history (add_to_command_history env text app)
          \<and> intent_count (process_command env (Some text) app) tag =
              (if fst (process_system_command env text app) then intent_count app tag
               else intent_count app tag + (if tag = get_command_intent text then 1 else 0)))
   \<and> intent_count app tag \<le> intent_count (step env e app) tag"
  by (simp add: process_command_history process_command_count step_count_mono)

text \<open>
  C4, as stated, fails: \<open>exit\<close> appends a record tagged \<open>general\<close> to the history, and the
  count of \<open>general\<close> stays as it was.
\<close>

theorem exit_recorded_not_counted:
  "length (command_history (process_command offline_env (Some ''exit'') fresh_app)) =
     Suc (length (command_history fresh_app))
   \<and> intent (last (command_history (process_command offline_env (Some ''exit'') fresh_app)))
       = ''general''
   \<and> intent_count (process_command offline_env (Some ''exit'') fresh_app) ''general''
       = intent_count fresh_app ''general''"
  by code_simp

theorem intent_frequency_counts_dispatched_witness:
  "intent_count (process_command offline_env (Some ''tell me a joke'') fresh_app) ''general'' = 1
   \<and> length (command_history (process_command offline_env (Some ''tell me a joke'') fresh_app)) = 1
   \<and> intent_count (process_command offline_env (Some ''exit'') fresh_app) ''general'' = 0
   \<and> intent_count fresh_app ''general''
       \<le> intent_count (step offline_env (ProcessText (Some ''exit'')) fresh_app) ''general''"
proof -
  note joke = intent_frequency_counts_dispatched
    [of "''tell me a joke''" offline_env fresh_app "''general''" "ProcessText (Some ''exit'')"]
  note exit = intent_frequency_counts_dispatched
    [of "''exit''" offline_env fresh_app "''general''" "ProcessText (Some ''exit'')"]
  have j: "\<not> fst (process_system_command offline_env ''tell me a joke'' fresh_app)"
    by code_simp
  have ji: "get_command_intent ''tell me a joke'' = ''general''"
    by code_simp
  have z: "intent_count fresh_app ''general'' = 0"
    by code_simp
  have h: "length (command_history (add_to_command_history offline_env ''tell me a joke'' fresh_app)) = 1"
    by code_simp
  have x: "fst (process_system_command offline_env ''exit'' fresh_app)"
    by code_simp
  from joke j ji z
  have 1: "intent_count (process_command offline_env (Some ''tell me a joke'') fresh_app) ''general'' = 1"
    by simp
  from joke h
  have 2: "length (command_history (process_command offline_env (Some ''tell me a joke'') fresh_app)) = 1"
    by simp
  from exit x z
  have 3: "intent_count (process_command offline_env (Some ''exit'') fresh_app) ''general'' = 0"
    by simp
  from exit
  have 4: "intent_count fresh_app ''general''
       \<le> intent_count (step offline_env (ProcessText (Some ''exit'')) fresh_app) ''general''"
    by blast
  from 1 2 3 4 show ?thesis by blast
qed

section \<open>The weather command\<close>

lemma weather_text_intent: "get_command_intent ''What's the weather in Paris'' = ''weather''"
  by code_simp

lemma weather_text_not_system:
  "process_system_command env ''What's the weather in Paris'' a = (False, a)"
  by (simp add: process_system_command_def Let_def str_lower_def lower_char_def upper_letters_def
      lower_letters_def startswith_def command_prefixes_def any_in_def str_in_def sublist_Cons_right)

lemma default_location_none:
  "config_get create_default_config ''default_location'' ''Lucknow'' PNone = PNone"
  by (simp add: config_get_def create_default_config_def)

lemma weather_result_none:
  "weather_result w cfg env PNone =
     \<lparr>weather_success = True, weather_location = PNone, weather_temperature = PInt 20,
      weather_description = PStr ''clear sky'', weather_forecast = None, weather_error = None\<rparr>"
  by (simp add: weather_result_def get_current_weather_def get_forecast_def dummy_weather_def)

text \<open>
  C9: what the code does where the claim expects a parsed or defaulted location. With the
  default configuration, \<open>config.get("default_location", "Lucknow")\<close> looks for a section
  \<open>default_location\<close> and a key \<open>Lucknow\<close> in it and yields \<open>None\<close>. So for
  \<open>What's the weather in Paris\<close>, whatever the state of the assistant, the weather services
  and the API key, the weather module is called with the location \<open>None\<close>; it answers with
  its dummy data, and the assistant reports the weather in \<open>None\<close>. The other half of the
  claim holds: for every result with \<open>success = False\<close> the output is the fixed apology.
\<close>

theorem weather_location_is_none:
  "config_get create_default_config ''default_location'' ''Lucknow'' PNone = PNone
   \<and> effects (process_command env (Some ''What's the weather in Paris'')
                (app\<lparr>config := create_default_config\<rparr>)) =
       effects app @
       [UpdateResponse ''You: What's the weather in Paris'',
        IntentClassified ''What's the weather in Paris'' ''weather'',
        IntentClassified ''What's the weather in Paris'' ''weather'',
        GetWeather PNone,
        UpdateResponse (''The weather in None is clear sky with a temperature of 20'' @
                          [CHR 0xB0] @ ''C.''),
        Speak (''The weather in None is clear sky with a temperature of 20'' @
                 [CHR 0xB0] @ ''C.'')]
   \<and> handle_weather_response (info\<lparr>weather_success := False\<rparr>) app =
       handle_assistant_response
         ''Sorry, I couldn't get the weather information. Please try again later.'' app"
  by (simp add: process_command_def Let_def weather_text_not_system weather_text_intent
      add_user_message_def process_weather_command_eq default_location_none weather_result_none
      handle_weather_response_def said_def str_of_nat.simps)

section \<open>The general-query collaborator\<close>

lemma fallback_member: "get_fallback_response env q \<in> set fallback_responses"
proof -
  have "0 < length fallback_responses"
    by (simp add: fallback_responses_def)
  then have "random_draw env mod length fallback_responses < length fallback_responses"
    by simp
  then show ?thesis
    unfolding get_fallback_response_def by (rule nth_mem)
qed

lemma fallback_responses_distinct:
  "length fallback_responses = 4 \<and> distinct fallback_responses"
  by (simp add: fallback_responses_def)

lemma unavailable_fallback:
  "\<not> has_api_key m \<or> \<not> openai_available m \<Longrightarrow> query_response m env q = get_fallback_response env q"
  by (auto simp: query_response_def generate_response_def)

text \<open>
  C10: \<open>process_query\<close> returns, and hands its callback, a result with \<open>success = True\<close>
  whenever the callback does not raise on it; that holds with and without an API key or
  the OpenAI package. Without either, the response is the entry of the list of fallback
  responses at the index \<open>random.choice\<close> draws: it is one of the four different fallback
  responses, and each of them is the response for the draw of its index. A result with \<open>success = False\<close> comes back only when the first call of the callback
  raised. \<open>handle_ai_response\<close> shows the response of a successful result as it is, and
  the router's own callback never raises, so the general branch of the router always shows
  the response of \<open>process_query\<close> and never the fixed apology.
\<close>

theorem process_query_success_unless_exception:
  "(call_callback callback
       \<lparr>success = True, query = q, response = query_response m env q, error = None\<rparr> st = Inr st'
     \<longrightarrow> process_query m env q callback st =
          Inr (\<lparr>success = True, query = q, response = query_response m env q, error = None\<rparr>, st'))
   \<and> (\<not> has_api_key m \<or> \<not> openai_available m
     \<longrightarrow> query_response m env q
           = fallback_responses ! (random_draw env mod length fallback_responses)
         \<and> query_response m env q \<in> set fallback_responses)
   \<and> (process_query m env q callback st = Inr (info, st') \<and> \<not> success info
     \<longrightarrow> (\<exists>e. call_callback callback
                 \<lparr>success = True, query = q, response = query_response m env q, error = None\<rparr> st
               = Inl e))
   \<and> (success info
     \<longrightarrow> handle_ai_response info app = handle_assistant_response (response info) app)
   \<and> process_general_command env q app =
       handle_assistant_response (query_response (ai app) env q) (perform (ProcessQuery q) app)
   \<and> ((\<not> has_api_key m \<or> \<not> openai_available m) \<and> i < length fallback_responses
     \<longrightarrow> query_response m (env\<lparr>random_draw := i\<rparr>) q = fallback_responses ! i)
   \<and> length fallback_responses = 4
   \<and> distinct fallback_responses"
proof (intro conjI impI)
  show "query_response m env q \<in> set fallback_responses"
    if "\<not> has_api_key m \<or> \<not> openai_available m"
    using that unavailable_fallback [of m env q] fallback_member [of env q] by simp
  show "query_response m env q
          = fallback_responses ! (random_draw env mod length fallback_responses)"
    if "\<not> has_api_key m \<or> \<not> openai_available m"
    using that unavailable_fallback [of m env q] by (simp add: get_fallback_response_def)
  show "query_response m (env\<lparr>random_draw := i\<rparr>) q = fallback_responses ! i"
    if "(\<not> has_api_key m \<or> \<not> openai_available m) \<and> i < length fallback_responses"
    using that unavailable_fallback [of m "env\<lparr>random_draw := i\<rparr>" q]
    by (simp add: get_fallback_response_def)
  show "length fallback_responses = 4" "distinct fallback_responses"
    using fallback_responses_distinct by simp_all
  show "process_general_command env q app =
       handle_assistant_response (query_response (ai app) env q) (perform (ProcessQuery q) app)"
    by (simp add: process_general_command_eq handle_ai_response_def)
qed (auto simp: process_query_def Let_def handle_ai_response_def split: sum.splits)

theorem process_query_success_unless_exception_witness:
  "process_query offline_ai offline_env ''tell me a joke'' None (0::nat) =
     Inr (\<lparr>success = True, query = ''tell me a joke'',
           response = ''I'm sorry, I can't access my AI services right now.'', error = None\<rparr>, 0)
   \<and> ''I'm sorry, I can't access my AI services right now.'' \<in> set fallback_responses
   \<and> process_query offline_ai offline_env ''tell me a joke'' (Some raising_callback) (0::nat) =
     Inr (\<lparr>success = False, query = ''tell me a joke'',
           response = ''I encountered an error processing your request.'',
           error = Some ''display failed''\<rparr>, 1)
   \<and> call_callback (Some raising_callback)
       \<lparr>success = True, query = ''tell me a joke'',
        response = ''I'm sorry, I can't access my AI services right now.'', error = None\<rparr> (0::nat)
       = Inl ''display failed''
   \<and> handle_ai_response
       \<lparr>success = True, query = ''tell me a joke'',
        response = ''I'm sorry, I can't access my AI services right now.'', error = None\<rparr> fresh_app
       = handle_assistant_response ''I'm sorry, I can't access my AI services right now.'' fresh_app
   \<and> query_response offline_ai (offline_env\<lparr>random_draw := 2\<rparr>) ''tell me a joke''
       = ''I apologize, but I'm unable to process that request right now.''
   \<and> query_response offline_ai (offline_env\<lparr>random_draw := 5\<rparr>) ''tell me a joke''
       = ''I'm having trouble connecting to my knowledge base at the moment.''"
proof -
  have r: "query_response offline_ai offline_env ''tell me a joke'' =
             ''I'm sorry, I can't access my AI services right now.''"
    by (simp add: query_response_def offline_ai_def has_api_key_def get_fallback_response_def
        offline_env_def fallback_responses_def)
  have u: "\<not> has_api_key offline_ai \<or> \<not> openai_available offline_ai"
    by (simp add: offline_ai_def has_api_key_def)
  have c: "call_callback None
       \<lparr>success = True, query = ''tell me a joke'',
        response = query_response offline_ai offline_env ''tell me a joke'', error = None\<rparr> (0::nat)
       = Inr 0"
    by (simp add: call_callback_def)
  have f: "process_query offline_ai offline_env ''tell me a joke'' (Some raising_callback) (0::nat) =
     Inr (\<lparr>success = False, query = ''tell me a joke'',
           response = ''I encountered an error processing your request.'',
           error = Some ''display failed''\<rparr>, 1)"
    by (simp add: process_query_def call_callback_def raising_callback_def Let_def)
  note none_case = process_query_success_unless_exception
    [of None "''tell me a joke''" offline_ai offline_env "0::nat" 0]
  note raise_case = process_query_success_unless_exception
    [of "Some raising_callback" "''tell me a joke''" offline_ai offline_env "0::nat" 1
        "\<lparr>success = False, query = ''tell me a joke'',
           response = ''I encountered an error processing your request.'',
           error = Some ''display failed''\<rparr>"]
  from none_case c r have 1: "process_query offline_ai offline_env ''tell me a joke'' None (0::nat) =
     Inr (\<lparr>success = True, query = ''tell me a joke'',
           response = ''I'm sorry, I can't access my AI services right now.'', error = None\<rparr>, 0)"
    by simp
  from none_case u r have 2: "''I'm sorry, I can't access my AI services right now.'' \<in> set fallback_responses"
    by simp
  from raise_case f r have "\<exists>e. call_callback (Some raising_callback)
       \<lparr>success = True, query = ''tell me a joke'',
        response = ''I'm sorry, I can't access my AI services right now.'', error = None\<rparr> (0::nat)
       = Inl e"
    by simp
  then have 3: "call_callback (Some raising_callback)
       \<lparr>success = True, query = ''tell me a joke'',
        response = ''I'm sorry, I can't access my AI services right now.'', error = None\<rparr> (0::nat)
       = Inl ''display failed''"
    by (simp add: call_callback_def raising_callback_def)
  note shown = process_query_success_unless_exception
    [of None "''tell me a joke''" offline_ai offline_env "0::nat" 0
        "\<lparr>success = True, query = ''tell me a joke'',
          response = ''I'm sorry, I can't access my AI services right now.'', error = None\<rparr>"
        fresh_app]
  have "success \<lparr>success = True, query = ''tell me a joke'',
        response = ''I'm sorry, I can't access my AI services right now.'', error = None\<rparr>"
    by simp
  with shown
  have 4: "handle_ai_response
       \<lparr>success = True, query = ''tell me a joke'',
        response = ''I'm sorry, I can't access my AI services right now.'', error = None\<rparr> fresh_app
       = handle_assistant_response ''I'm sorry, I can't access my AI services right now.'' fresh_app"
    by simp
  note third = process_query_success_unless_exception
    [of None "''tell me a joke''" offline_ai offline_env "0::nat" 0
        "\<lparr>success = True, query = ''tell me a joke'',
          response = ''I'm sorry, I can't access my AI services right now.'', error = None\<rparr>"
        fresh_app 2]
  have "(2::nat) < length fallback_responses"
    by (simp add: fallback_responses_def)
  with third u
  have "query_response offline_ai (offline_env\<lparr>random_draw := 2\<rparr>) ''tell me a joke''
          = fallback_responses ! 2"
    by blast
  then have 5: "query_response offline_ai (offline_env\<lparr>random_draw := 2\<rparr>) ''tell me a joke''
       = ''I apologize, but I'm unable to process that request right now.''"
    by (simp add: fallback_responses_def)
  note second = process_query_success_unless_exception
    [of None "''tell me a joke''" offline_ai "offline_env\<lparr>random_draw := 5\<rparr>" "0::nat" 0
        "\<lparr>success = True, query = ''tell me a joke'',
          response = ''I'm sorry, I can't access my AI services right now.'', error = None\<rparr>"
        fresh_app 2]
  from second u
  have "query_response offline_ai (offline_env\<lparr>random_draw := 5\<rparr>) ''tell me a joke''
          = fallback_responses ! (random_draw (offline_env\<lparr>random_draw := 5\<rparr>)
                                    mod length fallback_responses)"
    by blast
  then have 6: "query_response offline_ai (offline_env\<lparr>random_draw := 5\<rparr>) ''tell me a joke''
       = ''I'm having trouble connecting to my knowledge base at the moment.''"
    by (simp add: fallback_responses_def)
  from 1 2 f 3 4 5 6 show ?thesis by blast
qed

section \<open>Resuming after speech output\<close>

lemma resume_flag_clear:
  "\<not> is_listening_enabled app \<Longrightarrow> resume_listening_after_tts app = app"
  by (simp add: resume_listening_after_tts_def)

lemma resume_starts_session_when_idle:
  "is_listening_enabled app \<Longrightarrow> \<not> thread_running (speech_module app) \<Longrightarrow>
   thread_running (speech_module (resume_listening_after_tts app))
   \<and> \<not> stop_event (speech_module (resume_listening_after_tts app))
   \<and> sessions_started (speech_module (resume_listening_after_tts app))
       = sessions_started (speech_module app) + 1"
  by (simp add: resume_listening_after_tts_def start_listening_def)

lemma resume_with_thread_running:
  "thread_running (speech_module app) \<Longrightarrow> resume_listening_after_tts app = app"
  by (simp add: resume_listening_after_tts_def call_speech_def start_listening_def new_signals_def)

text \<open>
  C8: what the code does where the claim expects the assistant to listen again. Listening
  is enabled and speech output has started; \<open>stop_listening\<close> has set the stop event, and
  the capture thread is still waiting for audio. When the speech output finishes now, with
  the flag set, \<open>resume_listening_after_tts\<close> calls \<open>start_listening\<close>, which returns at
  once because the thread is running: nothing changes but the speaking flag of the speech
  output. When the thread then gets its audio it finds the stop event set, drops the audio
  and ends. The assistant is left idle with listening enabled, in its first and only
  capture session.
\<close>

theorem resume_blocked_by_stopped_thread:
  "is_listening_enabled stale_app
   \<and> tts_speaking stale_app
   \<and> thread_running (speech_module stale_app)
   \<and> stop_event (speech_module stale_app)
   \<and> speech_module (step offline_env SpeechFinished stale_app) = speech_module stale_app
   \<and> effects (step offline_env SpeechFinished stale_app) = effects stale_app
   \<and> \<not> tts_speaking (step offline_env SpeechFinished stale_app)
   \<and> \<not> thread_running
         (speech_module (run_events offline_env [SpeechFinished, AudioCaptured] stale_app))
   \<and> sessions_started
         (speech_module (run_events offline_env [SpeechFinished, AudioCaptured] stale_app)) = 1
   \<and> emitted (speech_module (run_events offline_env [SpeechFinished, AudioCaptured] stale_app))
       = [ListeningStarted, ListeningEnded, ListeningEnded]
   \<and> is_listening_enabled (run_events offline_env [SpeechFinished, AudioCaptured] stale_app)"
  by code_simp

section \<open>Speech output and capture sessions\<close>

text \<open>
  C2: what the code does where the claim expects capture to stay off. The assistant is
  speaking and its capture thread, asked to stop, has ended. The restart timer, and
  likewise the direct command \<open>computer listen\<close>, starts a second capture session while
  the speech output is still in progress: \<open>start_listening\<close> and
  \<open>check_and_restart_listening\<close> ask only whether a capture thread is running.
\<close>

theorem capture_starts_while_speaking:
  "tts_speaking suspended_app
   \<and> sessions_started (speech_module suspended_app) = 1
   \<and> tts_speaking (step offline_env RestartTimer suspended_app)
   \<and> sessions_started (speech_module (step offline_env RestartTimer suspended_app)) = 2
   \<and> tts_speaking (step offline_env (ProcessText (Some ''computer listen'')) suspended_app)
   \<and> sessions_started
        (speech_module (step offline_env (ProcessText (Some ''computer listen'')) suspended_app)) = 2"
  by code_simp

end
